theory Spec2Isabelle
  imports Main
begin

section \<open>Builder elements (src/contexts/builder/elementUtils.ts)\<close>

text \<open>
  A property value of an element: the props of a builder element are an open mapping from
  string keys to strings, numbers and booleans.
\<close>

datatype jsval = JStr string | JNum int | JBool bool

text \<open>
  \<^verbatim>\<open>BuilderElement\<close>: id, type, optional content, props and optional children. \<open>None\<close> is
  JavaScript's \<^verbatim>\<open>undefined\<close>: a leaf has no \<^verbatim>\<open>children\<close> field, and an element built from a
  palette payload without a \<^verbatim>\<open>type\<close> field has no type.
\<close>

datatype element =
  Element (el_id: string) (el_type: "string option") (el_content: "string option")
          (el_props: "(string \<times> jsval) list") (el_children: "element list option")

text \<open>\<^verbatim>\<open>isPremiumElement\<close>: membership in the premium catalog.\<close>

definition premiumElements :: "string list" where
  "premiumElements =
    [''PricingElement'', ''FeatureTableElement'', ''AnimatedHeroElement'',
     ''TestimonialsCarouselElement'', ''AdvancedGalleryElement'', ''TeamMembersElement'',
     ''StatisticsElement'', ''AnimatedCounterElement'', ''ParallaxSectionElement'',
     ''InteractiveCardsElement'', ''AnimatedTimelineElement'', ''FloatingShapesElement'',
     ''GradientBackgroundElement'', ''fadeInElement'', ''slideInElement'', ''scaleInElement'',
     ''animatedHeading'', ''animatedSection'']"

definition isPremiumElement :: "string \<Rightarrow> bool" where
  "isPremiumElement elementType \<longleftrightarrow> elementType \<in> set premiumElements"

text \<open>\<^verbatim>\<open>isEnterpriseElement\<close>: membership in the enterprise-only catalog.\<close>

definition enterpriseElements :: "string list" where
  "enterpriseElements =
    [''CustomFormElement'', ''3DModelElement'', ''DataVisualizationElement'',
     ''InteractiveMapElement'', ''AnimatedParticlesElement'', ''WebGLBackgroundElement'',
     ''LottieAnimationElement'', ''AdvancedChartElement'', ''VideoBackgroundElement'',
     ''SVGAnimationElement'', ''ScrollTriggeredElement'', ''particlesBackground'',
     ''scrollReveal'']"

definition isEnterpriseElement :: "string \<Rightarrow> bool" where
  "isEnterpriseElement elementType \<longleftrightarrow> elementType \<in> set enterpriseElements"

text \<open>
  \<^verbatim>\<open>findElementById(elements, id)\<close>: the loop over \<^verbatim>\<open>elements\<close> returns the element
  itself when its id matches, else the result of the recursive search of its children when
  they are present, non-empty and contain a match, else goes on with the next element.
\<close>

lemma el_children_size [termination_simp]:
  "el_children e = Some cs \<Longrightarrow> size_list size cs < size e"
  by (cases e) simp

function (sequential) findElementById :: "element list \<Rightarrow> string \<Rightarrow> element option" where
  "findElementById [] i = None"
| "findElementById (e # es) i =
     (if el_id e = i then Some e
      else (case el_children e of
              Some cs \<Rightarrow>
                (if length cs > 0
                 then (case findElementById cs i of
                         Some found \<Rightarrow> Some found
                       | None \<Rightarrow> findElementById es i)
                 else findElementById es i)
            | None \<Rightarrow> findElementById es i))"
  by pat_completeness auto
termination
  by (relation "measure (\<lambda>(es, i). size_list size es)")
     (auto dest!: el_children_size)

text \<open>
  The nodes of a tree in depth-first pre-order: each element, then its descendants, then
  its later siblings. This is the search order the specification of \<open>find\<close> speaks of.
\<close>

function (sequential) preorder :: "element list \<Rightarrow> element list" where
  "preorder [] = []"
| "preorder (e # es) =
     e # (case el_children e of None \<Rightarrow> [] | Some cs \<Rightarrow> preorder cs) @ preorder es"
  by pat_completeness auto
termination
  by (relation "measure (size_list size)") (auto dest!: el_children_size)

section \<open>Save status (src/pages/Builder.tsx, src/pages/builder/Shop.tsx)\<close>

text \<open>
  A number in a template literal is rendered in decimal, with a leading minus sign when it
  is negative.
\<close>

definition digit :: "nat \<Rightarrow> char" where
  "digit d = ''0123456789'' ! d"

function show_nat :: "nat \<Rightarrow> string" where
  "show_nat n = (if n < 10 then [digit n] else show_nat (n div 10) @ [digit (n mod 10)])"
  by pat_completeness auto
termination
  by (relation "measure id") auto

declare show_nat.simps [simp del]

definition show_int :: "int \<Rightarrow> string" where
  "show_int i = (if i < 0 then CHR ''-'' # show_nat (nat (- i)) else show_nat (nat i))"

text \<open>
  \<^verbatim>\<open>updateSaveStatus\<close>, the same in both pages. Times are the integer milliseconds of
  \<^verbatim>\<open>Date.getTime()\<close>; \<^verbatim>\<open>Math.floor(x / 1000)\<close> is \<open>div\<close>, which rounds down on
  \<open>int\<close>. The rendering of the absolute local time (\<^verbatim>\<open>toLocaleTimeString\<close> with two-digit
  hour and minute) depends on the browser's locale and is the parameter \<open>formatTime\<close>.
  The result is the string handed to \<^verbatim>\<open>setSaveStatus\<close>.
\<close>

definition updateSaveStatus :: "(int \<Rightarrow> string) \<Rightarrow> int \<Rightarrow> int option \<Rightarrow> string" where
  "updateSaveStatus formatTime now lastSaved =
     (case lastSaved of
        Some saved \<Rightarrow>
          (let diffInSeconds = (now - saved) div 1000 in
           if diffInSeconds < 60 then ''Saved '' @ show_int diffInSeconds @ '' seconds ago''
           else if diffInSeconds < 3600 then
             (let minutes = diffInSeconds div 60 in
              ''Saved '' @ show_int minutes @ '' minute'' @ (if minutes > 1 then ''s'' else '''')
                @ '' ago'')
           else ''Saved at '' @ formatTime saved)
      | None \<Rightarrow> '''')"

text \<open>
  Decimal notation, stated on its own: a string of digits without a leading zero (the
  numeral \<^verbatim>\<open>0\<close> apart), read from the left with base ten, and for a negative number a
  minus sign before the notation of its absolute value. This is how JavaScript prints an
  integer of this size.
\<close>

definition isDigit :: "char \<Rightarrow> bool" where
  "isDigit c \<longleftrightarrow> c \<in> set ''0123456789''"

definition digitValue :: "char \<Rightarrow> nat" where
  "digitValue c = of_char c - 48"

definition decimalValue :: "string \<Rightarrow> nat" where
  "decimalValue s = foldl (\<lambda>a c. 10 * a + digitValue c) 0 s"

definition canonicalDecimal :: "string \<Rightarrow> bool" where
  "canonicalDecimal s \<longleftrightarrow>
     s \<noteq> [] \<and> list_all isDigit s \<and> (s = ''0'' \<or> hd s \<noteq> CHR ''0'')"

definition rendersInt :: "string \<Rightarrow> int \<Rightarrow> bool" where
  "rendersInt s i =
     (if i < 0 then
        (case s of
           [] \<Rightarrow> False
         | c # t \<Rightarrow> c = CHR ''-'' \<and> canonicalDecimal t \<and> int (decimalValue t) = - i)
      else canonicalDecimal s \<and> int (decimalValue s) = i)"

text \<open>
  The effect around \<^verbatim>\<open>updateSaveStatus\<close>, with its dependency \<^verbatim>\<open>[lastSaved]\<close>. The state is
  the \<^verbatim>\<open>lastSaved\<close> that the running effect closes over, the time at which its interval was
  set (none when no interval is running) and the status string. When \<^verbatim>\<open>lastSaved\<close>
  changes, the cleanup of the previous run clears its interval and the effect runs again:
  without a save time it returns at once; with one it calls \<^verbatim>\<open>updateSaveStatus\<close> and
  sets a new interval of \<^verbatim>\<open>60000\<close> ms. Timers are taken to fire on time: an interval set at
  \<open>since\<close> fires at the times \<open>since + k * 60000\<close> for \<open>k \<ge> 1\<close>, and each firing
  calls \<^verbatim>\<open>updateSaveStatus\<close> with the clock of that time.
\<close>

definition tickInterval :: int where
  "tickInterval = 60000"

record status_state =
  se_lastSaved :: "int option"
  se_intervalSince :: "int option"
  se_saveStatus :: string

definition runStatusEffect ::
  "(int \<Rightarrow> string) \<Rightarrow> int \<Rightarrow> int option \<Rightarrow> status_state \<Rightarrow> status_state" where
  "runStatusEffect formatTime now lastSaved st =
     (case lastSaved of
        None \<Rightarrow> st\<lparr>se_lastSaved := None, se_intervalSince := None\<rparr>
      | Some saved \<Rightarrow>
          \<lparr>se_lastSaved = Some saved, se_intervalSince = Some now,
           se_saveStatus = updateSaveStatus formatTime now (Some saved)\<rparr>)"

definition intervalFires :: "status_state \<Rightarrow> int \<Rightarrow> bool" where
  "intervalFires st t =
     (case se_intervalSince st of
        None \<Rightarrow> False
      | Some since \<Rightarrow> since < t \<and> (t - since) mod tickInterval = 0)"

definition intervalTick :: "(int \<Rightarrow> string) \<Rightarrow> int \<Rightarrow> status_state \<Rightarrow> status_state" where
  "intervalTick formatTime now st =
     (if intervalFires st now
      then st\<lparr>se_saveStatus := updateSaveStatus formatTime now (se_lastSaved st)\<rparr>
      else st)"

section \<open>Pages and the website document (src/pages/Builder.tsx)\<close>

record page =
  page_id :: string
  page_title :: string
  page_slug :: string
  page_isHomePage :: bool

record page_settings =
  ps_title :: string
  ps_meta :: "(string \<times> jsval) list"

text \<open>
  \<^verbatim>\<open>website.settings\<close>; every field may be absent. The same shape is the settings patch
  handed to \<^verbatim>\<open>saveWebsite\<close>, which names only the fields it changes.
\<close>

record website_settings =
  st_pages :: "page list option"
  st_pagesContent :: "(string \<rightharpoonup> element list) option"
  st_pagesSettings :: "(string \<rightharpoonup> page_settings) option"
  st_logoUrl :: "string option"

record website =
  ws_name :: string
  ws_content :: "element list option"
  ws_pageSettings :: "page_settings option"
  ws_settings :: "website_settings option"

text \<open>
  \<^verbatim>\<open>String.prototype.toLowerCase\<close> on the ASCII letters. JavaScript also lowers letters
  beyond ASCII; none of them becomes a letter of \<^verbatim>\<open>home\<close>, \<^verbatim>\<open>shop\<close> or \<^verbatim>\<open>about\<close>, the
  only strings the result is compared with.
\<close>

definition toLowerChar :: "char \<Rightarrow> char" where
  "toLowerChar c =
     (let n = (of_char c :: nat) in if 65 \<le> n \<and> n \<le> 90 then char_of (n + 32) else c)"

definition toLowerCase :: "string \<Rightarrow> string" where
  "toLowerCase s = map toLowerChar s"

text \<open>
  The identifier generator \<^verbatim>\<open>uuidv4\<close> is a collaborator: a supply \<open>gen\<close> of identifiers
  and the number \<open>n\<close> of identifiers drawn so far; each call returns \<open>gen n\<close> and
  advances the counter.
\<close>

type_synonym uuid_supply = "nat \<Rightarrow> string"

text \<open>The arguments of one call \<^verbatim>\<open>saveWebsite(content, pageSettings, settingsPatch)\<close>.\<close>

record save_call =
  sc_content :: "element list option"
  sc_pageSettings :: "page_settings option"
  sc_patch :: website_settings

text \<open>
  The page list that \<^verbatim>\<open>ensureRequiredPages\<close> computes, with its \<^verbatim>\<open>hasChanged\<close> flag and
  the advanced identifier counter: the three steps for Home, Shop and About, in this order.
\<close>

definition ensureHome :: "uuid_supply \<Rightarrow> page list \<times> bool \<times> nat \<Rightarrow> page list \<times> bool \<times> nat" where
  "ensureHome gen st =
     (case st of (updatedPages, hasChanged, n) \<Rightarrow>
        (case find (\<lambda>p. page_isHomePage p \<or> toLowerCase (page_title p) = ''home'') updatedPages of
           None \<Rightarrow>
             (updatedPages @
                [\<lparr>page_id = gen n, page_title = ''Home'', page_slug = ''/'',
                  page_isHomePage = True\<rparr>],
              True, Suc n)
         | Some homePage \<Rightarrow>
             if \<not> page_isHomePage homePage then
               (map (\<lambda>p. if page_id p = page_id homePage then p\<lparr>page_isHomePage := True\<rparr> else p)
                  updatedPages,
                True, n)
             else (updatedPages, hasChanged, n)))"

definition ensureTitled ::
  "string \<Rightarrow> string \<Rightarrow> string \<Rightarrow> uuid_supply \<Rightarrow> page list \<times> bool \<times> nat \<Rightarrow> page list \<times> bool \<times> nat"
where
  "ensureTitled lower title slug gen st =
     (case st of (updatedPages, hasChanged, n) \<Rightarrow>
        (case find (\<lambda>p. toLowerCase (page_title p) = lower) updatedPages of
           None \<Rightarrow>
             (updatedPages @
                [\<lparr>page_id = gen n, page_title = title, page_slug = slug,
                  page_isHomePage = False\<rparr>],
              True, Suc n)
         | Some found \<Rightarrow> (updatedPages, hasChanged, n)))"

definition requiredPages :: "uuid_supply \<Rightarrow> nat \<Rightarrow> page list \<Rightarrow> page list \<times> bool \<times> nat" where
  "requiredPages gen n pages =
     ensureTitled ''about'' ''About'' ''/about'' gen
       (ensureTitled ''shop'' ''Shop'' ''/shop'' gen
          (ensureHome gen (pages, False, n)))"

text \<open>
  \<^verbatim>\<open>ensureRequiredPages\<close>: nothing happens without a website, settings or page list;
  otherwise \<^verbatim>\<open>saveWebsite\<close> is called, with the settings carrying the updated page list,
  exactly when \<^verbatim>\<open>hasChanged\<close> is set. The result is that call, if it is made, and the
  identifier counter.
\<close>

definition ensureRequiredPages ::
  "uuid_supply \<Rightarrow> nat \<Rightarrow> website option \<Rightarrow> save_call option \<times> nat" where
  "ensureRequiredPages gen n w =
     (case w of
        None \<Rightarrow> (None, n)
      | Some website \<Rightarrow>
          (case ws_settings website of
             None \<Rightarrow> (None, n)
           | Some settings \<Rightarrow>
               (case st_pages settings of
                  None \<Rightarrow> (None, n)
                | Some pages \<Rightarrow>
                    (case requiredPages gen n pages of
                       (updatedPages, hasChanged, n') \<Rightarrow>
                         if hasChanged then
                           (Some \<lparr>sc_content = ws_content website,
                                  sc_pageSettings = ws_pageSettings website,
                                  sc_patch = settings\<lparr>st_pages := Some updatedPages\<rparr>\<rparr>, n')
                         else (None, n')))))"

text \<open>
  Modelled from the spec: the persistence collaborator \<^verbatim>\<open>saveWebsite\<close> of the hook
  \<^verbatim>\<open>useWebsite\<close>, which is not among the sources. A successful
  \<open>saveDocument(websiteId, content, pageSettings, settingsPatch)\<close> stores the content and
  the page settings it is given and the fields the settings patch names; the other
  settings stay as they were.
\<close>

definition patchSettings :: "website_settings option \<Rightarrow> website_settings \<Rightarrow> website_settings" where
  "patchSettings old patch =
     (case old of
        None \<Rightarrow> patch
      | Some s \<Rightarrow>
          \<lparr>st_pages = (case st_pages patch of Some v \<Rightarrow> Some v | None \<Rightarrow> st_pages s),
           st_pagesContent =
             (case st_pagesContent patch of Some v \<Rightarrow> Some v | None \<Rightarrow> st_pagesContent s),
           st_pagesSettings =
             (case st_pagesSettings patch of Some v \<Rightarrow> Some v | None \<Rightarrow> st_pagesSettings s),
           st_logoUrl = (case st_logoUrl patch of Some v \<Rightarrow> Some v | None \<Rightarrow> st_logoUrl s)\<rparr>)"

definition saveWebsite :: "website \<Rightarrow> save_call \<Rightarrow> website" where
  "saveWebsite website call =
     website\<lparr>ws_content := sc_content call,
             ws_pageSettings := sc_pageSettings call,
             ws_settings := Some (patchSettings (ws_settings website) (sc_patch call))\<rparr>"

text \<open>
  \<open>ensureRequiredPages(document) \<rightarrow> document'\<close>: the document after the call and its
  save, whether anything changed, and the identifier counter.
\<close>

definition ensureRequiredPagesDoc :: "uuid_supply \<Rightarrow> nat \<Rightarrow> website \<Rightarrow> website \<times> bool \<times> nat" where
  "ensureRequiredPagesDoc gen n website =
     (case ensureRequiredPages gen n (Some website) of
        (None, n') \<Rightarrow> (website, False, n')
      | (Some call, n') \<Rightarrow> (saveWebsite website call, True, n'))"

text \<open>
  \<open>pagesContent\<close> and \<open>pagesSettings\<close> are plain JavaScript objects. Reading
  \<^verbatim>\<open>obj[key]\<close> gives the object's own entry when it has one; otherwise, for a key that
  names a member of \<^verbatim>\<open>Object.prototype\<close>, the inherited member; otherwise \<^verbatim>\<open>undefined\<close>.
  The inherited members are functions, whose \<^verbatim>\<open>length\<close> is their number of parameters,
  and for \<^verbatim>\<open>__proto__\<close> the prototype object, which has no \<^verbatim>\<open>length\<close>. Assigning
  \<^verbatim>\<open>obj[key] = value\<close> sets an own entry, except for the key \<^verbatim>\<open>__proto__\<close> on an object
  without such an own entry: that assignment sets the prototype and adds no entry.
\<close>

definition objectPrototypeKeys :: "string list" where
  "objectPrototypeKeys =
     [''constructor'', ''__defineGetter__'', ''__defineSetter__'', ''hasOwnProperty'',
      ''__lookupGetter__'', ''__lookupSetter__'', ''isPrototypeOf'', ''propertyIsEnumerable'',
      ''toString'', ''valueOf'', ''__proto__'', ''toLocaleString'']"

datatype 'a js_lookup = Own 'a | Inherited | Absent

definition jsLookup :: "(string \<rightharpoonup> 'a) \<Rightarrow> string \<Rightarrow> 'a js_lookup" where
  "jsLookup m k =
     (case m k of
        Some v \<Rightarrow> Own v
      | None \<Rightarrow> if k \<in> set objectPrototypeKeys then Inherited else Absent)"

definition inheritedLength :: "string \<Rightarrow> nat" where
  "inheritedLength k =
     (if k \<in> set [''__defineGetter__'', ''__defineSetter__''] then 2
      else if k \<in> set [''toString'', ''valueOf'', ''toLocaleString'', ''__proto__''] then 0
      else 1)"

definition jsAssign :: "(string \<rightharpoonup> 'a) \<Rightarrow> string \<Rightarrow> 'a \<Rightarrow> (string \<rightharpoonup> 'a)" where
  "jsAssign m k v = (if k = ''__proto__'' \<and> m k = None then m else m(k \<mapsto> v))"

text \<open>
  The effect that loads the page content. Without a website or with a missing or empty
  \<^verbatim>\<open>currentPageId\<close> it returns at once; reading \<^verbatim>\<open>website.settings.pagesContent\<close> of a
  website without settings throws inside the \<^verbatim>\<open>try\<close>, and the handler reports the error.
  Otherwise the values handed to \<^verbatim>\<open>setCurrentPageElements\<close> and
  \<^verbatim>\<open>setCurrentPageSettings\<close> are the result: each is a value of the document, or the
  member of \<^verbatim>\<open>Object.prototype\<close> that the lookup found. \<open>elements\<close> and
  \<open>websiteName\<close> come from the hook \<^verbatim>\<open>useWebsite\<close>, which is not among the sources:
  they are parameters.
\<close>

datatype 'a loaded = Value 'a | InheritedMember string

datatype load_result = NotRun | LoadFailed | Loaded "element list loaded" "page_settings loaded"

definition loadPageContent ::
  "website option \<Rightarrow> string option \<Rightarrow> element list option \<Rightarrow> string \<Rightarrow> load_result" where
  "loadPageContent w currentPageId elements websiteName =
     (case (w, currentPageId) of
        (None, _) \<Rightarrow> NotRun
      | (_, None) \<Rightarrow> NotRun
      | (Some website, Some pid) \<Rightarrow>
          if pid = [] then NotRun
          else
            (case ws_settings website of
               None \<Rightarrow> LoadFailed
             | Some settings \<Rightarrow>
                 (let pagesContent =
                        (case st_pagesContent settings of Some m \<Rightarrow> m | None \<Rightarrow> Map.empty);
                      hookElements = (case elements of Some es \<Rightarrow> es | None \<Rightarrow> []);
                      fallback = \<lparr>ps_title = websiteName, ps_meta = []\<rparr>
                  in Loaded
                       (case jsLookup pagesContent pid of
                          Own pageContent \<Rightarrow>
                            Value (if length pageContent \<noteq> 0 then pageContent else hookElements)
                        | Absent \<Rightarrow> Value hookElements
                        | Inherited \<Rightarrow>
                            if inheritedLength pid \<noteq> 0 then InheritedMember pid
                            else Value hookElements)
                       (case st_pagesSettings settings of
                          None \<Rightarrow> Value fallback
                        | Some m \<Rightarrow>
                            (case jsLookup m pid of
                               Own pageSettings \<Rightarrow> Value pageSettings
                             | Absent \<Rightarrow> Value fallback
                             | Inherited \<Rightarrow> InheritedMember pid)))))"

text \<open>
  \<^verbatim>\<open>handleSaveComplete\<close>. \<^verbatim>\<open>JSON.parse(JSON.stringify(m))\<close> copies the map; on values,
  the copy is the map itself. Without a website or a page id the handler only reports an
  error; reading the settings of a website without settings throws before the \<^verbatim>\<open>try\<close>;
  otherwise the handler calls \<^verbatim>\<open>saveWebsite\<close>, and the arguments of that call are the
  result.
\<close>

definition deepCopy :: "'a \<Rightarrow> 'a" where
  "deepCopy m = m"

datatype commit_result = CommitRefused | CommitThrows | CommitSaves save_call

definition handleSaveComplete ::
  "website option \<Rightarrow> string option \<Rightarrow> element list \<Rightarrow> page_settings \<Rightarrow> commit_result" where
  "handleSaveComplete w currentPageId updatedElements updatedPageSettings =
     (case (w, currentPageId) of
        (None, _) \<Rightarrow> CommitRefused
      | (_, None) \<Rightarrow> CommitRefused
      | (Some website, Some pid) \<Rightarrow>
          if pid = [] then CommitRefused
          else
            (case ws_settings website of
               None \<Rightarrow> CommitThrows
             | Some settings \<Rightarrow>
                 (let pagesContent =
                        (case st_pagesContent settings of
                           Some m \<Rightarrow> deepCopy m | None \<Rightarrow> Map.empty);
                      pagesSettings =
                        (case st_pagesSettings settings of
                           Some m \<Rightarrow> deepCopy m | None \<Rightarrow> Map.empty);
                      pagesContent' = jsAssign pagesContent pid updatedElements;
                      pagesSettings' = jsAssign pagesSettings pid updatedPageSettings;
                      isHomePage =
                        (case st_pages settings of
                           None \<Rightarrow> False
                         | Some pages \<Rightarrow>
                             (case find page_isHomePage pages of
                                None \<Rightarrow> False
                              | Some p \<Rightarrow> page_id p = pid))
                  in CommitSaves
                       \<lparr>sc_content =
                          (if isHomePage then Some updatedElements else ws_content website),
                        sc_pageSettings = Some updatedPageSettings,
                        sc_patch = \<lparr>st_pages = None, st_pagesContent = Some pagesContent',
                                    st_pagesSettings = Some pagesSettings',
                                    st_logoUrl = None\<rparr>\<rparr>)))"

text \<open>
  Committing a page and loading it again: the call of \<^verbatim>\<open>handleSaveComplete\<close>, the save
  of that call, and the load effect on the saved document. The elements and the website
  name that the hook \<^verbatim>\<open>useWebsite\<close> supplies to the load are parameters.
\<close>

definition commitThenLoad ::
  "website \<Rightarrow> string option \<Rightarrow> element list \<Rightarrow> page_settings \<Rightarrow> element list option \<Rightarrow>
   string \<Rightarrow> load_result" where
  "commitThenLoad website pageId updatedElements updatedPageSettings elements websiteName =
     (case handleSaveComplete (Some website) pageId updatedElements updatedPageSettings of
        CommitSaves call \<Rightarrow>
          loadPageContent (Some (saveWebsite website call)) pageId elements websiteName
      | _ \<Rightarrow> NotRun)"

section \<open>The drop handler (CanvasDragDropHandler)\<close>

text \<open>
  The payload of a drop, \<^verbatim>\<open>{id?, type, content?, props?, parentId?, sourceIndex?}\<close>, as
  \<^verbatim>\<open>JSON.parse\<close> returns it; \<open>None\<close> is an absent field. \<^verbatim>\<open>getData\<close> returns the empty
  string when the event carries no data; \<^verbatim>\<open>JSON.parse\<close> throws on text that is not JSON
  and returns \<^verbatim>\<open>null\<close> on the text \<^verbatim>\<open>null\<close>. A number, string, boolean or array that it
  returns has none of the fields and is the payload in which every field is absent.
\<close>

record payload =
  pl_id :: "string option"
  pl_type :: "string option"
  pl_content :: "string option"
  pl_props :: "(string \<times> jsval) list option"
  pl_parentId :: "string option"
  pl_sourceIndex :: "int option"

datatype drop_data = NoData | Unparseable | ParsedNull | Parsed payload

text \<open>
  What the handler closes over: the preview flag, the container it belongs to (absent for
  the root canvas), the drop target recorded by the last drag-over, the root elements of
  the builder context, and the identifier that \<^verbatim>\<open>uuidv4()\<close> returns when it is called.
\<close>

record drop_ctx =
  isPreviewMode :: bool
  containerId :: "string option"
  dropTarget_top :: bool
  dropTarget_element :: "string option"
  elements :: "element list"
  freshId :: string

text \<open>
  The second argument of \<^verbatim>\<open>addElement\<close> is an index, a container id, \<^verbatim>\<open>null\<close> or
  \<^verbatim>\<open>undefined\<close>, depending on the call.
\<close>

datatype js_arg = ArgIndex int | ArgContainer string | ArgNull | ArgUndefined

text \<open>
  The calls the handler makes, in order: to the element store (\<^verbatim>\<open>addElement\<close>,
  \<^verbatim>\<open>moveElement\<close>, and \<^verbatim>\<open>removeElement\<close> from a timer), to \<^verbatim>\<open>toast\<close> and to the console.
\<close>

datatype command =
    AddElement element js_arg "string option"
  | MoveElement int int "string option"
  | SetTimeoutRemove string nat
  | Toast string string
  | ConsoleLog string
  | ConsoleError string

datatype js_exception = SyntaxError | TypeError

text \<open>A string is truthy when it is present and not empty.\<close>

definition truthy :: "string option \<Rightarrow> bool" where
  "truthy s = (case s of None \<Rightarrow> False | Some v \<Rightarrow> v \<noteq> [])"

text \<open>\<^verbatim>\<open>Array.prototype.findIndex\<close>: the first index whose element satisfies \<open>P\<close>, or -1.\<close>

fun findIndex :: "('a \<Rightarrow> bool) \<Rightarrow> 'a list \<Rightarrow> int" where
  "findIndex P [] = - 1"
| "findIndex P (x # xs) =
     (if P x then 0 else (let r = findIndex P xs in if r = - 1 then - 1 else r + 1))"

text \<open>
  \<^verbatim>\<open>findElementIndex(elementId, parentId?)\<close>. The context's \<^verbatim>\<open>findElementById(id)\<close> is
  \<open>findElementById\<close> on the context's elements.
\<close>

definition findElementIndex :: "element list \<Rightarrow> string \<Rightarrow> string option \<Rightarrow> int" where
  "findElementIndex els elementId parentId =
     (if \<not> truthy parentId then findIndex (\<lambda>el. el_id el = elementId) els
      else
        (case findElementById els (the parentId) of
           Some parent \<Rightarrow>
             (case el_children parent of
                Some cs \<Rightarrow> findIndex (\<lambda>el. el_id el = elementId) cs
              | None \<Rightarrow> - 1)
         | None \<Rightarrow> - 1))"

text \<open>
  Object spread \<^verbatim>\<open>{...base, ...over}\<close> on property lists: the keys of \<open>base\<close> keep
  their places and take the values of \<open>over\<close> where it has them; the other keys of
  \<open>over\<close> follow.
\<close>

definition spread :: "(string \<times> jsval) list \<Rightarrow> (string \<times> jsval) list \<Rightarrow> (string \<times> jsval) list" where
  "spread base over =
     map (\<lambda>(k, v). (k, case map_of over k of Some v' \<Rightarrow> v' | None \<Rightarrow> v)) base @
     filter (\<lambda>(k, v). map_of base k = None) over"

definition productsListDefaults :: "(string \<times> jsval) list" where
  "productsListDefaults =
     [(''columns'', JNum 3), (''productsPerPage'', JNum 6), (''showPagination'', JBool True),
      (''cardStyle'', JStr ''default''), (''sortBy'', JStr ''created_at''),
      (''sortOrder'', JStr ''desc''), (''categoryFilter'', JStr ''all'')]"

definition typeText :: "string option \<Rightarrow> string" where
  "typeText t = (case t of Some s \<Rightarrow> s | None \<Rightarrow> ''undefined'')"

definition addedToast :: "payload \<Rightarrow> command" where
  "addedToast elementData =
     Toast ''Element Added'' (''Added new '' @ typeText (pl_type elementData) @ '' element'')"

text \<open>The branch for a payload without an id: a new element from the palette.\<close>

definition dropNewElement :: "drop_ctx \<Rightarrow> payload \<Rightarrow> command list" where
  "dropNewElement ctx elementData =
     (let props0 = (case pl_props elementData of Some ps \<Rightarrow> ps | None \<Rightarrow> []);
          newElement =
            Element (freshId ctx) (pl_type elementData)
              (Some (case pl_content elementData of Some c \<Rightarrow> c | None \<Rightarrow> []))
              (if pl_type elementData = Some ''productsList''
               then spread productsListDefaults props0 else props0)
              None;
          targetIndex =
            (if truthy (dropTarget_element ctx) \<and> truthy (containerId ctx)
             then findElementIndex (elements ctx) (the (dropTarget_element ctx)) (containerId ctx)
             else - 1)
      in if truthy (dropTarget_element ctx) \<and> truthy (containerId ctx) \<and> targetIndex \<noteq> - 1 then
           (let insertIndex = (if dropTarget_top ctx then targetIndex else targetIndex + 1)
            in [ConsoleLog (''Adding new element to container '' @ the (containerId ctx) @
                  '' at position '' @ show_int insertIndex),
                AddElement newElement (ArgIndex insertIndex) (containerId ctx),
                addedToast elementData])
         else if truthy (containerId ctx) then
           (case findElementById (elements ctx) (the (containerId ctx)) of
              Some container \<Rightarrow>
                (let childrenCount =
                       (case el_children container of Some cs \<Rightarrow> int (length cs) | None \<Rightarrow> 0)
                 in [ConsoleLog (''Adding new element to container '' @ the (containerId ctx) @
                       '' at end position ('' @ show_int childrenCount @ '')''),
                     AddElement newElement (ArgContainer (the (containerId ctx))) None,
                     addedToast elementData])
            | None \<Rightarrow>
                [ConsoleLog (''Container not found: '' @ the (containerId ctx)),
                 addedToast elementData])
         else
           [ConsoleLog ''Adding new element to root'',
            AddElement newElement ArgNull None,
            addedToast elementData])"

text \<open>
  The branch for a payload with an id: an element that exists is moved. \<open>sourceIndex\<close>
  is -1 when the payload has none, and the number the payload carries otherwise. The copy \<^verbatim>\<open>{...sourceElement}\<close> has the fields of the
  source element, its id and its children among them: as a value it is the source element.
\<close>

definition dropExistingElement :: "drop_ctx \<Rightarrow> payload \<Rightarrow> command list" where
  "dropExistingElement ctx elementData =
     (let eid = the (pl_id elementData) in
      case findElementById (elements ctx) eid of
        None \<Rightarrow> [ConsoleLog (''Source element not found: '' @ eid)]
      | Some sourceElement \<Rightarrow>
          (let sourceParentId = pl_parentId elementData;
               sourceIndex = (case pl_sourceIndex elementData of Some s \<Rightarrow> s | None \<Rightarrow> - 1);
               hasTarget = truthy (dropTarget_element ctx);
               targetIndex =
                 (if hasTarget
                  then findElementIndex (elements ctx) (the (dropTarget_element ctx))
                         (containerId ctx)
                  else - 1)
           in if sourceParentId = containerId ctx \<and> hasTarget \<and>
                 dropTarget_element ctx \<noteq> Some eid \<and> targetIndex \<noteq> - 1 then
                (let adjustedTargetIndex =
                       (if dropTarget_top ctx then targetIndex else targetIndex + 1);
                     destinationIndex =
                       (if sourceIndex \<noteq> - 1 \<and> sourceIndex < targetIndex
                        then adjustedTargetIndex - 1 else adjustedTargetIndex)
                 in [ConsoleLog (''Moving element from '' @ show_int sourceIndex @ '' to '' @
                       show_int destinationIndex @ '' in same container''),
                     MoveElement sourceIndex destinationIndex sourceParentId])
              else if sourceParentId = containerId ctx \<and> \<not> truthy (containerId ctx) \<and>
                      sourceIndex \<noteq> - 1 then
                (let dropIndex = int (length (elements ctx)) - 1
                 in [MoveElement sourceIndex dropIndex None,
                     ConsoleLog (''Moving element from '' @ show_int sourceIndex @ '' to '' @
                       show_int dropIndex @ '' at root level'')])
              else
                (let elementCopy = sourceElement in
                 (if hasTarget then
                    (if targetIndex \<noteq> - 1 then
                       (let insertIndex =
                              (if dropTarget_top ctx then targetIndex else targetIndex + 1)
                        in [AddElement elementCopy (ArgIndex insertIndex) (containerId ctx),
                            ConsoleLog (''Added element to new container at position '' @
                              show_int insertIndex)])
                     else
                       [AddElement elementCopy
                          (case containerId ctx of Some c \<Rightarrow> ArgContainer c
                           | None \<Rightarrow> ArgUndefined) None,
                        ConsoleLog ''Added element to new container at the end''])
                  else
                    [AddElement elementCopy
                       (if truthy (containerId ctx) then ArgContainer (the (containerId ctx))
                        else ArgNull) None,
                     ConsoleLog ''Added element to new container at the end'']) @
                 (if sourceIndex \<noteq> - 1 then [SetTimeoutRemove eid 50] else []))))"

text \<open>
  The body of the \<^verbatim>\<open>try\<close>: the calls made, and the exception that ends it, if any.
\<close>

definition handleDrop_try :: "drop_ctx \<Rightarrow> drop_data \<Rightarrow> command list \<times> js_exception option" where
  "handleDrop_try ctx data =
     (case data of
        NoData \<Rightarrow> ([ConsoleLog ''No data in drop event''], None)
      | Unparseable \<Rightarrow> ([], Some SyntaxError)
      | ParsedNull \<Rightarrow> ([ConsoleLog ''Dropped element data:''], Some TypeError)
      | Parsed elementData \<Rightarrow>
          (ConsoleLog ''Dropped element data:'' #
             (if \<not> truthy (pl_id elementData) then dropNewElement ctx elementData
              else dropExistingElement ctx elementData),
           None))"

text \<open>
  \<^verbatim>\<open>handleDrop\<close>: the handler resets its dragging state, which nothing below reads, and
  does nothing more in preview mode; otherwise it runs the body, whose exception the
  \<^verbatim>\<open>catch\<close> turns into a console error and a toast. The result is \<open>Inl\<close> for an
  exception that reaches the caller and \<open>Inr\<close> for the calls made.
\<close>

definition handleDrop :: "drop_ctx \<Rightarrow> drop_data \<Rightarrow> js_exception + command list" where
  "handleDrop ctx data =
     (if isPreviewMode ctx then Inr []
      else
        (case handleDrop_try ctx data of
           (cmds, None) \<Rightarrow> Inr cmds
         | (cmds, Some error) \<Rightarrow>
             Inr (cmds @
               [ConsoleError ''Error handling drop:'',
                Toast ''Error'' ''Error adding element. Please try again.''])))"

section \<open>The element tree store\<close>

text \<open>
  Modelled from the spec: the store operations \<^verbatim>\<open>addElement\<close>, \<^verbatim>\<open>moveElement\<close> and
  \<^verbatim>\<open>removeElement\<close> of the builder context (\<^verbatim>\<open>BuilderProvider\<close>), which are not among the
  sources. \<open>insert(newElement, index?, containerId?)\<close> inserts into the root sequence
  when the container is absent and into the children of the node with that id otherwise (a
  no-op when there is none); without an index it appends, and an index is clamped into
  \<open>[0, length]\<close>. \<open>move(sourceIndex, destinationIndex, containerId?)\<close> removes the
  element at the source index of the target sequence and reinserts it at the destination
  index. \<open>remove(id)\<close> deletes the node with this id wherever it occurs in the tree.
\<close>

definition insertAt :: "int \<Rightarrow> 'a \<Rightarrow> 'a list \<Rightarrow> 'a list" where
  "insertAt i x xs =
     (let k = (if i < 0 then 0 else min (nat i) (length xs)) in take k xs @ x # drop k xs)"

definition insertSeq :: "int option \<Rightarrow> 'a \<Rightarrow> 'a list \<Rightarrow> 'a list" where
  "insertSeq idx x xs = (case idx of None \<Rightarrow> xs @ [x] | Some i \<Rightarrow> insertAt i x xs)"

definition moveSeq :: "int \<Rightarrow> int \<Rightarrow> 'a list \<Rightarrow> 'a list" where
  "moveSeq s d xs =
     (if 0 \<le> s \<and> s < int (length xs)
      then insertAt d (xs ! nat s) (take (nat s) xs @ drop (Suc (nat s)) xs)
      else xs)"

text \<open>
  \<open>inContainer c f\<close> rewrites with \<open>f\<close> the children of the node whose id is \<open>c\<close>;
  a node without children that stays without children keeps no \<^verbatim>\<open>children\<close> field.
\<close>

function (sequential) inContainer ::
  "string \<Rightarrow> (element list \<Rightarrow> element list) \<Rightarrow> element list \<Rightarrow> element list" where
  "inContainer c f [] = []"
| "inContainer c f (e # es) =
     Element (el_id e) (el_type e) (el_content e) (el_props e)
       (if el_id e = c then
          (case el_children e of
             None \<Rightarrow> (if f [] = [] then None else Some (f []))
           | Some cs \<Rightarrow> Some (f cs))
        else
          (case el_children e of
             None \<Rightarrow> None
           | Some cs \<Rightarrow> Some (inContainer c f cs)))
     # inContainer c f es"
  by pat_completeness auto
termination
  by (relation "measure (\<lambda>(c, f, es). size_list size es)") (auto dest!: el_children_size)

definition storeInsert ::
  "element list \<Rightarrow> element \<Rightarrow> int option \<Rightarrow> string option \<Rightarrow> element list" where
  "storeInsert els newElement idx container =
     (case container of
        None \<Rightarrow> insertSeq idx newElement els
      | Some c \<Rightarrow> inContainer c (insertSeq idx newElement) els)"

definition storeMove :: "element list \<Rightarrow> int \<Rightarrow> int \<Rightarrow> string option \<Rightarrow> element list" where
  "storeMove els s d container =
     (case container of
        None \<Rightarrow> moveSeq s d els
      | Some c \<Rightarrow> inContainer c (moveSeq s d) els)"

function (sequential) storeRemove :: "string \<Rightarrow> element list \<Rightarrow> element list" where
  "storeRemove i [] = []"
| "storeRemove i (e # es) =
     (if el_id e = i then storeRemove i es
      else
        Element (el_id e) (el_type e) (el_content e) (el_props e)
          (case el_children e of None \<Rightarrow> None | Some cs \<Rightarrow> Some (storeRemove i cs))
        # storeRemove i es)"
  by pat_completeness auto
termination
  by (relation "measure (\<lambda>(i, es). size_list size es)") (auto dest!: el_children_size)

text \<open>
  Modelled from the spec: the effect of one call of the handler on the store, at the
  moment the call is made. The call \<^verbatim>\<open>addElement(element, index, containerId)\<close> is the
  \<open>insert(newElement, index?, containerId?)\<close> of the specification. The handler also
  calls \<^verbatim>\<open>addElement\<close> with a container id, \<^verbatim>\<open>null\<close> or \<^verbatim>\<open>undefined\<close> as second
  argument, which the specification does not describe; the handler's comments at these
  calls say \<^verbatim>\<open>Always add to the end of the container\<close>, \<^verbatim>\<open>Add to root\<close> and
  \<^verbatim>\<open>Add to the end of the new container\<close>, and the calls are read so: an append to that
  container, or to the root. A removal handed to \<^verbatim>\<open>setTimeout\<close> does nothing yet.
\<close>

fun applyCommand :: "element list \<Rightarrow> command \<Rightarrow> element list" where
  "applyCommand els (AddElement e (ArgIndex i) container) = storeInsert els e (Some i) container"
| "applyCommand els (AddElement e (ArgContainer c) container) = storeInsert els e None (Some c)"
| "applyCommand els (AddElement e ArgNull container) = storeInsert els e None None"
| "applyCommand els (AddElement e ArgUndefined container) = storeInsert els e None None"
| "applyCommand els (MoveElement s d container) = storeMove els s d container"
| "applyCommand els cmd = els"

text \<open>The effect of the timers the handler has set, once they fire.\<close>

fun applyTimer :: "element list \<Rightarrow> command \<Rightarrow> element list" where
  "applyTimer els (SetTimeoutRemove i delay) = storeRemove i els"
| "applyTimer els cmd = els"

text \<open>
  The tree when the handler returns, and the tree after its timers have fired; an
  exception that reached the caller would leave the tree as it was.
\<close>

definition treeAfterDrop :: "drop_ctx \<Rightarrow> drop_data \<Rightarrow> element list" where
  "treeAfterDrop ctx data =
     (case handleDrop ctx data of
        Inl error \<Rightarrow> elements ctx
      | Inr cmds \<Rightarrow> foldl applyCommand (elements ctx) cmds)"

definition treeAfterTimers :: "drop_ctx \<Rightarrow> drop_data \<Rightarrow> element list" where
  "treeAfterTimers ctx data =
     (case handleDrop ctx data of
        Inl error \<Rightarrow> elements ctx
      | Inr cmds \<Rightarrow> foldl applyTimer (foldl applyCommand (elements ctx) cmds) cmds)"

text \<open>The number of nodes of a tree that carry a given id.\<close>

definition countId :: "string \<Rightarrow> element list \<Rightarrow> nat" where
  "countId i es = length (filter (\<lambda>e. el_id e = i) (preorder es))"

text \<open>The calls of a handler run that reach the store, and those that notify the user.\<close>

fun isStoreCommand :: "command \<Rightarrow> bool" where
  "isStoreCommand (AddElement e a c) = True"
| "isStoreCommand (MoveElement s d c) = True"
| "isStoreCommand (SetTimeoutRemove i delay) = True"
| "isStoreCommand cmd = False"

fun isToast :: "command \<Rightarrow> bool" where
  "isToast (Toast title description) = True"
| "isToast cmd = False"

definition storeCommands :: "js_exception + command list \<Rightarrow> command list" where
  "storeCommands r = (case r of Inl error \<Rightarrow> [] | Inr cmds \<Rightarrow> filter isStoreCommand cmds)"

definition toasts :: "js_exception + command list \<Rightarrow> command list" where
  "toasts r = (case r of Inl error \<Rightarrow> [] | Inr cmds \<Rightarrow> filter isToast cmds)"

section \<open>What the specification says, and example data\<close>

text \<open>
  \<open>loadPageContent(document, pageId)\<close> in the words of the specification: the entries
  of \<open>pagesContent\<close> and \<open>pagesSettings\<close> for the page when they are present, else
  an empty element sequence and the default settings with the website's name as title.
\<close>

definition loadPageContent_spec :: "website \<Rightarrow> string \<Rightarrow> element list \<times> page_settings" where
  "loadPageContent_spec website pageId =
     (case ws_settings website of
        None \<Rightarrow> ([], \<lparr>ps_title = ws_name website, ps_meta = []\<rparr>)
      | Some settings \<Rightarrow>
          ((case st_pagesContent settings of
              None \<Rightarrow> []
            | Some m \<Rightarrow> (case m pageId of Some c \<Rightarrow> c | None \<Rightarrow> [])),
           (case st_pagesSettings settings of
              None \<Rightarrow> \<lparr>ps_title = ws_name website, ps_meta = []\<rparr>
            | Some m \<Rightarrow>
                (case m pageId of
                   Some ps \<Rightarrow> ps
                 | None \<Rightarrow> \<lparr>ps_title = ws_name website, ps_meta = []\<rparr>))))"

definition heading :: element where
  "heading = Element ''h1'' (Some ''heading'') (Some ''Hi'') [] None"

definition welcomeText :: element where
  "welcomeText = Element ''t1'' (Some ''text'') (Some ''Welcome'') [] None"

definition noSettings :: website_settings where
  "noSettings =
     \<lparr>st_pages = None, st_pagesContent = None, st_pagesSettings = None, st_logoUrl = None\<rparr>"

text \<open>A website with top-level content and no per-page content.\<close>

definition legacySite :: website where
  "legacySite =
     \<lparr>ws_name = ''My Site'', ws_content = Some [heading], ws_pageSettings = None,
      ws_settings = Some noSettings\<rparr>"

text \<open>A website with a home page and an About page, and top-level content.\<close>

definition twoPages :: website_settings where
  "twoPages =
     \<lparr>st_pages =
        Some [\<lparr>page_id = ''p-home'', page_title = ''Home'', page_slug = ''/'',
                page_isHomePage = True\<rparr>,
              \<lparr>page_id = ''p-about'', page_title = ''About'', page_slug = ''/about'',
                page_isHomePage = False\<rparr>],
      st_pagesContent = None, st_pagesSettings = None, st_logoUrl = None\<rparr>"

definition twoPageSite :: website where
  "twoPageSite =
     \<lparr>ws_name = ''My Site'', ws_content = Some [heading], ws_pageSettings = None,
      ws_settings = Some twoPages\<rparr>"

definition aboutSettings :: page_settings where
  "aboutSettings = \<lparr>ps_title = ''About'', ps_meta = []\<rparr>"

text \<open>The same website with content and settings stored for its About page.\<close>

definition pagedSettings :: website_settings where
  "pagedSettings =
     twoPages\<lparr>st_pagesContent := Some [''p-about'' \<mapsto> [heading]],
              st_pagesSettings := Some [''p-about'' \<mapsto> aboutSettings]\<rparr>"

definition pagedSite :: website where
  "pagedSite =
     \<lparr>ws_name = ''My Site'', ws_content = Some [welcomeText], ws_pageSettings = None,
      ws_settings = Some pagedSettings\<rparr>"

text \<open>The status effect after a first save at time 0, and a clock rendering.\<close>

definition atQuarterPast :: "int \<Rightarrow> string" where
  "atQuarterPast t = ''10:15''"

definition savedAtStart :: status_state where
  "savedAtStart =
     runStatusEffect atQuarterPast 0 (Some 0)
       \<lparr>se_lastSaved = None, se_intervalSince = None, se_saveStatus = []\<rparr>"

text \<open>A website without pages, and an identifier supply.\<close>

definition noPages :: website_settings where
  "noPages =
     \<lparr>st_pages = Some [], st_pagesContent = None, st_pagesSettings = None, st_logoUrl = None\<rparr>"

definition emptySite :: website where
  "emptySite =
     \<lparr>ws_name = ''My Site'', ws_content = None, ws_pageSettings = None,
      ws_settings = Some noPages\<rparr>"

definition countingIds :: uuid_supply where
  "countingIds k = replicate (Suc k) CHR ''u''"

text \<open>Example trees and drops.\<close>

definition leaf :: "string \<Rightarrow> element" where
  "leaf i = Element i (Some ''text'') (Some ''t'') [] None"

definition box :: "string \<Rightarrow> element list \<Rightarrow> element" where
  "box i cs = Element i (Some ''section'') None [] (Some cs)"

definition dragged :: "string \<Rightarrow> string option \<Rightarrow> int \<Rightarrow> payload" where
  "dragged i parent s =
     \<lparr>pl_id = Some i, pl_type = Some ''text'', pl_content = Some ''t'', pl_props = None,
      pl_parentId = parent, pl_sourceIndex = Some s\<rparr>"

text \<open>
  The root canvas over three leaves, with the pointer on the top or bottom half of one of
  them.
\<close>

definition rootCanvas :: "string \<Rightarrow> bool \<Rightarrow> drop_ctx" where
  "rootCanvas target onTop =
     \<lparr>isPreviewMode = False, containerId = None, dropTarget_top = onTop,
      dropTarget_element = Some target, elements = [leaf ''a'', leaf ''b'', leaf ''c''],
      freshId = ''n''\<rparr>"

text \<open>
  The canvas of the container \<^verbatim>\<open>B\<close>, next to the container \<^verbatim>\<open>A\<close> that holds the leaf
  \<^verbatim>\<open>e\<close>; the pointer is on no element.
\<close>

definition canvasB :: drop_ctx where
  "canvasB =
     \<lparr>isPreviewMode = False, containerId = Some ''B'', dropTarget_top = True,
      dropTarget_element = None,
      elements = [box ''A'' [leaf ''e''], box ''B'' [leaf ''f'']], freshId = ''n''\<rparr>"

text \<open>The same canvas with the pointer on the top half of \<^verbatim>\<open>f\<close>, the child of \<^verbatim>\<open>B\<close>.\<close>

definition canvasBOverF :: drop_ctx where
  "canvasBOverF = canvasB\<lparr>dropTarget_element := Some ''f''\<rparr>"

text \<open>The canvas of the container \<^verbatim>\<open>A\<close>, with the pointer on its own child \<^verbatim>\<open>e\<close>.\<close>

definition canvasA :: drop_ctx where
  "canvasA =
     \<lparr>isPreviewMode = False, containerId = Some ''A'', dropTarget_top = True,
      dropTarget_element = Some ''e'',
      elements = [box ''A'' [leaf ''e'', leaf ''g''], box ''B'' [leaf ''f'']],
      freshId = ''n''\<rparr>"

section \<open>Properties\<close>

subsection \<open>Element lookup and plan catalogs\<close>

lemma find_app:
  "find P (xs @ ys) = (case find P xs of None \<Rightarrow> find P ys | Some x \<Rightarrow> Some x)"
  by (induction xs) simp_all

lemma findElementById_find:
  "findElementById es i = find (\<lambda>e. el_id e = i) (preorder es)"
proof (induction es i rule: findElementById.induct)
  case (1 i)
  show ?case by simp
next
  case (2 e es i)
  show ?case
  proof (cases "el_id e = i")
    case True
    then show ?thesis by simp
  next
    case False
    show ?thesis
    proof (cases "el_children e")
      case None
      with False 2 show ?thesis by simp
    next
      case (Some cs)
      show ?thesis
      proof (cases "cs = []")
        case True
        with False Some 2 show ?thesis by simp
      next
        case nonempty: False
        with False Some 2 show ?thesis
          by (simp add: find_app split: option.splits)
      qed
    qed
  qed
qed

text \<open>
  Claim C8. For every element tree and every id, \<open>findElementById\<close> returns the first
  element, in depth-first pre-order over the root sequence and all nested children, whose
  id equals the query; it returns nothing exactly when no element of the tree has that id.
\<close>

theorem findElementById_preorder:
  "findElementById es i = find (\<lambda>e. el_id e = i) (preorder es) \<and>
   (findElementById es i = None) = (i \<notin> el_id ` set (preorder es))"
  by (auto simp: findElementById_find find_None_iff)

text \<open>
  Claim C10. No element type is both a premium element and an enterprise-only element: the
  two catalogs are disjoint.
\<close>

theorem premium_enterprise_disjoint:
  "\<not> (isPremiumElement t \<and> isEnterpriseElement t)"
  by (auto simp: isPremiumElement_def isEnterpriseElement_def premiumElements_def
      enterpriseElements_def)

subsection \<open>Save status\<close>

lemma show_int_examples:
  "show_int 59 = ''59''" "show_int 1 = ''1''" "show_int 2 = ''2''"
  by code_simp+

lemma digit_props:
  assumes "d < 10"
  shows "isDigit (digit d)" and "digitValue (digit d) = d" and "(digit d = CHR ''0'') = (d = 0)"
proof -
  from assms have "d \<in> {0, 1, 2, 3, 4, 5, 6, 7, 8, 9}" by auto
  then show "isDigit (digit d)" and "digitValue (digit d) = d"
    and "(digit d = CHR ''0'') = (d = 0)"
    by (auto simp: digit_def isDigit_def digitValue_def)
qed

lemma digit_of_value: "isDigit c \<Longrightarrow> digit (digitValue c) = c \<and> digitValue c < 10"
  by (auto simp: isDigit_def digit_def digitValue_def)

lemma decimalValue_snoc: "decimalValue (s @ [c]) = 10 * decimalValue s + digitValue c"
  by (simp add: decimalValue_def)

lemma show_nat_nonempty: "show_nat n \<noteq> []"
  by (subst show_nat.simps) simp

lemma show_nat_digits: "list_all isDigit (show_nat n)"
proof (induction n rule: show_nat.induct)
  case (1 n)
  show ?case
  proof (cases "n < 10")
    case True
    then show ?thesis by (subst show_nat.simps) (simp add: digit_props)
  next
    case False
    with 1 show ?thesis by (subst show_nat.simps) (simp add: digit_props)
  qed
qed

lemma show_nat_value: "decimalValue (show_nat n) = n"
proof (induction n rule: show_nat.induct)
  case (1 n)
  show ?case
  proof (cases "n < 10")
    case True
    then show ?thesis
      by (subst show_nat.simps) (simp add: decimalValue_def digit_props)
  next
    case False
    with 1 show ?thesis
      by (subst show_nat.simps) (simp add: decimalValue_snoc digit_props)
  qed
qed

lemma show_nat_hd: "hd (show_nat n) = CHR ''0'' \<Longrightarrow> n = 0"
proof (induction n rule: show_nat.induct)
  case (1 n)
  show ?case
  proof (cases "n < 10")
    case True
    with "1.prems" show ?thesis
      by (subst (asm) show_nat.simps) (simp add: digit_props)
  next
    case False
    with "1.prems" have "hd (show_nat (n div 10)) = CHR ''0''"
      by (subst (asm) show_nat.simps) (simp add: show_nat_nonempty)
    with 1 False have "n div 10 = 0" by simp
    with False show ?thesis by simp
  qed
qed

lemma show_nat_canonical: "canonicalDecimal (show_nat n)"
proof -
  have "show_nat n = ''0'' \<or> hd (show_nat n) \<noteq> CHR ''0''"
  proof (cases "hd (show_nat n) = CHR ''0''")
    case True
    then have "n = 0" by (rule show_nat_hd)
    then show ?thesis by (subst show_nat.simps) (simp add: digit_def)
  next
    case False
    then show ?thesis by simp
  qed
  then show ?thesis
    by (simp add: canonicalDecimal_def show_nat_nonempty show_nat_digits)
qed

lemma show_int_renders: "rendersInt (show_int i) i"
  by (simp add: rendersInt_def show_int_def show_nat_canonical show_nat_value)

lemma canonical_is_show_nat: "canonicalDecimal s \<Longrightarrow> s = show_nat (decimalValue s)"
proof (induction s rule: rev_induct)
  case Nil
  then show ?case by (simp add: canonicalDecimal_def)
next
  case (snoc c t)
  from snoc.prems have c: "isDigit c" and t: "list_all isDigit t"
    by (simp_all add: canonicalDecimal_def)
  show ?case
  proof (cases "t = []")
    case True
    with c show ?thesis
      by (subst show_nat.simps) (simp add: decimalValue_def digit_of_value)
  next
    case False
    with snoc.prems have hd: "hd t \<noteq> CHR ''0''"
      by (cases t) (auto simp: canonicalDecimal_def)
    with False t have ct: "canonicalDecimal t" by (simp add: canonicalDecimal_def)
    then have eq: "t = show_nat (decimalValue t)" by (rule snoc.IH)
    have "decimalValue t \<noteq> 0"
    proof
      assume "decimalValue t = 0"
      with eq have "t = show_nat 0" by simp
      then have "t = ''0''" by (subst (asm) show_nat.simps) (simp add: digit_def)
      with hd show False by simp
    qed
    then have big: "\<not> 10 * decimalValue t + digitValue c < 10" by simp
    have "show_nat (10 * decimalValue t + digitValue c) =
            show_nat (decimalValue t) @ [digit (digitValue c)]"
      using big digit_of_value [OF c] by (subst show_nat.simps) simp
    with eq c show ?thesis
      by (simp add: decimalValue_snoc digit_of_value)
  qed
qed

text \<open>The string that is the decimal notation of an integer is the one \<open>show_int\<close> gives.\<close>

lemma rendersInt_iff: "rendersInt s i \<longleftrightarrow> s = show_int i"
proof
  assume r: "rendersInt s i"
  show "s = show_int i"
  proof (cases "i < 0")
    case True
    with r obtain t where t: "s = CHR ''-'' # t" "canonicalDecimal t" "int (decimalValue t) = - i"
      by (cases s) (auto simp: rendersInt_def)
    from t(3) have "decimalValue t = nat (- i)" by simp
    with canonical_is_show_nat [OF t(2)] t(1) True show ?thesis
      by (simp add: show_int_def)
  next
    case False
    with r have c: "canonicalDecimal s" and v: "int (decimalValue s) = i"
      by (simp_all add: rendersInt_def)
    from v have "decimalValue s = nat i" by simp
    with canonical_is_show_nat [OF c] False show ?thesis
      by (simp add: show_int_def)
  qed
next
  assume "s = show_int i"
  then show "rendersInt s i" by (simp add: show_int_renders)
qed

lemma fires_iff:
  "(since < t \<and> (t - since) mod 60000 = 0) \<longleftrightarrow> (\<exists>k\<ge>1. t = since + int k * 60000)"
  for since t :: int
proof
  assume a: "since < t \<and> (t - since) mod 60000 = 0"
  then obtain q where q: "t - since = 60000 * q" by (auto simp: mod_eq_0_iff_dvd)
  with a have "0 < q" by simp
  then have "1 \<le> nat q" and "t = since + int (nat q) * 60000" using q by simp_all
  then show "\<exists>k\<ge>1. t = since + int k * 60000" by blast
next
  assume "\<exists>k\<ge>1. t = since + int k * 60000"
  then show "since < t \<and> (t - since) mod 60000 = 0" by auto
qed

text \<open>
  Claim C9, as stated, fails in its last clause: the tick is not independent of save
  events. After a save at time 0 the interval fires at 60000; when a second save happens at
  30000, the interval is cleared and set again, nothing fires at 60000, and the next tick
  is at 90000.
\<close>

theorem status_tick_restart_counterexample:
  "se_intervalSince savedAtStart = Some 0 \<and>
   intervalFires savedAtStart 60000 \<and>
   se_intervalSince (runStatusEffect atQuarterPast 30000 (Some 30000) savedAtStart) =
     Some 30000 \<and>
   \<not> intervalFires (runStatusEffect atQuarterPast 30000 (Some 30000) savedAtStart) 60000 \<and>
   intervalFires (runStatusEffect atQuarterPast 30000 (Some 30000) savedAtStart) 90000"
  by (simp add: savedAtStart_def runStatusEffect_def intervalFires_def tickInterval_def)

text \<open>
  Claim C9, amended. With \<open>N\<close> the whole seconds elapsed since the last successful save,
  the status string is \<^verbatim>\<open>Saved N seconds ago\<close> when \<open>N < 60\<close>; \<^verbatim>\<open>Saved M minute(s) ago\<close>
  with \<open>M = N div 60\<close> and the plural s exactly when \<open>M > 1\<close>, when
  \<open>60 \<le> N < 3600\<close>; and \<^verbatim>\<open>Saved at\<close> followed by the absolute local time otherwise;
  \<open>N\<close> and \<open>M\<close> are printed in decimal notation. The string is recomputed when the
  last-saved time changes, and then by every tick of an interval of 60000 ms that is set at
  that moment: the ticks are at the multiples of 60000 ms after the latest change of the
  last-saved time, each recomputes the string from the clock and that save time and
  leaves the interval running, and there is no tick while there is no last save.
\<close>

theorem updateSaveStatus_cases:
  "((now - saved) div 1000 < 60 \<longrightarrow>
      updateSaveStatus formatTime now (Some saved) =
        ''Saved '' @ show_int ((now - saved) div 1000) @ '' seconds ago'') \<and>
   (60 \<le> (now - saved) div 1000 \<and> (now - saved) div 1000 < 3600 \<longrightarrow>
      updateSaveStatus formatTime now (Some saved) =
        ''Saved '' @ show_int ((now - saved) div 1000 div 60) @ '' minute'' @
          (if (now - saved) div 1000 div 60 > 1 then ''s'' else '''') @ '' ago'') \<and>
   (3600 \<le> (now - saved) div 1000 \<longrightarrow>
      updateSaveStatus formatTime now (Some saved) = ''Saved at '' @ formatTime saved) \<and>
   rendersInt (show_int ((now - saved) div 1000)) ((now - saved) div 1000) \<and>
   rendersInt (show_int ((now - saved) div 1000 div 60)) ((now - saved) div 1000 div 60) \<and>
   se_saveStatus (runStatusEffect formatTime now (Some saved) st) =
     updateSaveStatus formatTime now (Some saved) \<and>
   intervalFires (runStatusEffect formatTime now (Some saved) st) t =
     (\<exists>k\<ge>1. t = now + int k * 60000) \<and>
   (intervalFires st t \<longrightarrow>
      intervalTick formatTime t st =
        st\<lparr>se_saveStatus := updateSaveStatus formatTime t (se_lastSaved st)\<rparr>) \<and>
   \<not> intervalFires (runStatusEffect formatTime now None st) t"
proof -
  have fires: "intervalFires (runStatusEffect formatTime now (Some saved) st) t =
     (\<exists>k\<ge>1. t = now + int k * 60000)"
    using fires_iff [of now t]
    by (simp add: intervalFires_def runStatusEffect_def tickInterval_def)
  show ?thesis
    unfolding fires
    by (simp add: updateSaveStatus_def Let_def show_int_renders runStatusEffect_def
        intervalTick_def intervalFires_def)
qed

theorem updateSaveStatus_cases_witness:
  "updateSaveStatus atQuarterPast 59000 (Some 0) = ''Saved 59 seconds ago'' \<and>
   updateSaveStatus atQuarterPast 60000 (Some 0) = ''Saved 1 minute ago'' \<and>
   updateSaveStatus atQuarterPast 120000 (Some 0) = ''Saved 2 minutes ago'' \<and>
   updateSaveStatus atQuarterPast 3600000 (Some 0) = ''Saved at 10:15'' \<and>
   rendersInt ''59'' 59 \<and>
   intervalFires savedAtStart 120000 \<and>
   se_saveStatus (intervalTick atQuarterPast 120000 savedAtStart) = ''Saved 2 minutes ago''"
proof -
  let ?init = "\<lparr>se_lastSaved = None, se_intervalSince = None, se_saveStatus = []\<rparr>"
  have strings:
    "updateSaveStatus atQuarterPast 59000 (Some 0) = ''Saved 59 seconds ago''"
    "updateSaveStatus atQuarterPast 60000 (Some 0) = ''Saved 1 minute ago''"
    "updateSaveStatus atQuarterPast 120000 (Some 0) = ''Saved 2 minutes ago''"
    "updateSaveStatus atQuarterPast 3600000 (Some 0) = ''Saved at 10:15''"
    "rendersInt ''59'' 59"
    using updateSaveStatus_cases [of 59000 0 atQuarterPast ?init 0]
      updateSaveStatus_cases [of 60000 0 atQuarterPast ?init 0]
      updateSaveStatus_cases [of 120000 0 atQuarterPast ?init 0]
      updateSaveStatus_cases [of 3600000 0 atQuarterPast ?init 0]
    by (simp_all add: show_int_examples atQuarterPast_def)
  have "\<exists>k\<ge>1. (120000::int) = 0 + int k * 60000"
    by (rule exI [of _ 2]) simp
  with updateSaveStatus_cases [of 0 0 atQuarterPast ?init 120000]
  have fires: "intervalFires savedAtStart 120000"
    by (simp add: savedAtStart_def)
  have saved: "se_lastSaved savedAtStart = Some 0"
    by (simp add: savedAtStart_def runStatusEffect_def)
  from fires updateSaveStatus_cases [of 0 0 atQuarterPast savedAtStart 120000]
  have "se_saveStatus (intervalTick atQuarterPast 120000 savedAtStart) =
          updateSaveStatus atQuarterPast 120000 (Some 0)"
    by (simp add: saved)
  with strings fires show ?thesis by simp
qed

subsection \<open>Required pages\<close>

lemma toLowerCase_titles:
  "toLowerCase ''Home'' = ''home''" "toLowerCase ''Shop'' = ''shop''"
  "toLowerCase ''About'' = ''about''"
  by code_simp+

lemma requiredPages_empty:
  "requiredPages gen n [] =
     ([\<lparr>page_id = gen n, page_title = ''Home'', page_slug = ''/'', page_isHomePage = True\<rparr>,
       \<lparr>page_id = gen (Suc n), page_title = ''Shop'', page_slug = ''/shop'',
         page_isHomePage = False\<rparr>,
       \<lparr>page_id = gen (Suc (Suc n)), page_title = ''About'', page_slug = ''/about'',
         page_isHomePage = False\<rparr>],
      True, Suc (Suc (Suc n)))"
  by (simp add: requiredPages_def ensureHome_def ensureTitled_def toLowerCase_titles)

lemma requiredPages_again:
  "requiredPages gen' m
     [\<lparr>page_id = a, page_title = ''Home'', page_slug = ''/'', page_isHomePage = True\<rparr>,
      \<lparr>page_id = b, page_title = ''Shop'', page_slug = ''/shop'', page_isHomePage = False\<rparr>,
      \<lparr>page_id = c, page_title = ''About'', page_slug = ''/about'', page_isHomePage = False\<rparr>] =
     ([\<lparr>page_id = a, page_title = ''Home'', page_slug = ''/'', page_isHomePage = True\<rparr>,
       \<lparr>page_id = b, page_title = ''Shop'', page_slug = ''/shop'', page_isHomePage = False\<rparr>,
       \<lparr>page_id = c, page_title = ''About'', page_slug = ''/about'', page_isHomePage = False\<rparr>],
      False, m)"
  by (simp add: requiredPages_def ensureHome_def ensureTitled_def toLowerCase_titles)

text \<open>
  Claim C5. On a website document with zero pages, \<open>ensureRequiredPages\<close> yields a
  document whose pages are Home (home page, slug \<^verbatim>\<open>/\<close>), Shop (slug \<^verbatim>\<open>/shop\<close>) and About
  (slug \<^verbatim>\<open>/about\<close>), with the next three identifiers of the generator, which are distinct
  when the generator's are; it reports a change. Applied again to the resulting document,
  with any state of the generator, it makes no save, draws no identifier, leaves the
  document as it is and reports no change.
\<close>

theorem ensureRequiredPages_zero_pages:
  assumes "ws_settings website = Some settings" and "st_pages settings = Some []"
    and "distinct [gen n, gen (Suc n), gen (Suc (Suc n))]"
  shows "\<exists>website' pages'.
           ensureRequiredPagesDoc gen n website = (website', True, Suc (Suc (Suc n))) \<and>
           ws_settings website' = Some (settings\<lparr>st_pages := Some pages'\<rparr>) \<and>
           pages' =
             [\<lparr>page_id = gen n, page_title = ''Home'', page_slug = ''/'',
               page_isHomePage = True\<rparr>,
              \<lparr>page_id = gen (Suc n), page_title = ''Shop'', page_slug = ''/shop'',
               page_isHomePage = False\<rparr>,
              \<lparr>page_id = gen (Suc (Suc n)), page_title = ''About'', page_slug = ''/about'',
               page_isHomePage = False\<rparr>] \<and>
           distinct (map page_id pages') \<and>
           ensureRequiredPages gen' m (Some website') = (None, m) \<and>
           ensureRequiredPagesDoc gen' m website' = (website', False, m)"
proof -
  let ?ps = "[\<lparr>page_id = gen n, page_title = ''Home'', page_slug = ''/'',
               page_isHomePage = True\<rparr>,
              \<lparr>page_id = gen (Suc n), page_title = ''Shop'', page_slug = ''/shop'',
               page_isHomePage = False\<rparr>,
              \<lparr>page_id = gen (Suc (Suc n)), page_title = ''About'', page_slug = ''/about'',
               page_isHomePage = False\<rparr>]"
  let ?w = "saveWebsite website
      \<lparr>sc_content = ws_content website, sc_pageSettings = ws_pageSettings website,
       sc_patch = settings\<lparr>st_pages := Some ?ps\<rparr>\<rparr>"
  have first: "ensureRequiredPagesDoc gen n website = (?w, True, Suc (Suc (Suc n)))"
    using assms(1,2)
    by (simp add: ensureRequiredPagesDoc_def ensureRequiredPages_def requiredPages_empty)
  have st: "ws_settings ?w = Some (settings\<lparr>st_pages := Some ?ps\<rparr>)"
    using assms(1)
    by (cases settings) (simp add: saveWebsite_def patchSettings_def split: option.splits)
  have again: "ensureRequiredPages gen' m (Some ?w) = (None, m)"
    by (simp add: ensureRequiredPages_def st requiredPages_again)
  have doc: "ensureRequiredPagesDoc gen' m ?w = (?w, False, m)"
    by (simp add: ensureRequiredPagesDoc_def again)
  have d: "distinct (map page_id ?ps)"
    using assms(3) by simp
  from first st again doc d show ?thesis by blast
qed

theorem ensureRequiredPages_zero_pages_witness:
  "ws_settings emptySite = Some noPages \<and> st_pages noPages = Some [] \<and>
   distinct [countingIds 0, countingIds (Suc 0), countingIds (Suc (Suc 0))] \<and>
   (\<exists>website' pages'.
      ensureRequiredPagesDoc countingIds 0 emptySite = (website', True, Suc (Suc (Suc 0))) \<and>
      ws_settings website' = Some (noPages\<lparr>st_pages := Some pages'\<rparr>) \<and>
      pages' =
        [\<lparr>page_id = ''u'', page_title = ''Home'', page_slug = ''/'', page_isHomePage = True\<rparr>,
         \<lparr>page_id = ''uu'', page_title = ''Shop'', page_slug = ''/shop'',
          page_isHomePage = False\<rparr>,
         \<lparr>page_id = ''uuu'', page_title = ''About'', page_slug = ''/about'',
          page_isHomePage = False\<rparr>] \<and>
      distinct (map page_id pages') \<and>
      ensureRequiredPages countingIds 7 (Some website') = (None, 7) \<and>
      ensureRequiredPagesDoc countingIds 7 website' = (website', False, 7))"
proof -
  have h1: "ws_settings emptySite = Some noPages" by (simp add: emptySite_def)
  have h2: "st_pages noPages = Some []" by (simp add: noPages_def)
  have ids: "countingIds 0 = ''u''" "countingIds (Suc 0) = ''uu''"
    "countingIds (Suc (Suc 0)) = ''uuu''"
    by (simp_all add: countingIds_def)
  have h3: "distinct [countingIds 0, countingIds (Suc 0), countingIds (Suc (Suc 0))]"
    by (simp add: ids)
  show ?thesis
    using h1 h2 h3 ensureRequiredPages_zero_pages [OF h1 h2 h3, of countingIds 7]
    by (simp add: ids)
qed

subsection \<open>Loading and committing page content\<close>

lemma not_prototype_keys:
  "''p-about'' \<notin> set objectPrototypeKeys" "''p-home'' \<notin> set objectPrototypeKeys"
  by (simp_all add: objectPrototypeKeys_def)

text \<open>
  Claim C3, as stated, fails: for a page without an entry in \<open>pagesContent\<close> the load
  does not return an empty element sequence when the hook's elements are not empty.
\<close>

theorem loadPageContent_fallback_counterexample:
  "loadPageContent (Some legacySite) (Some ''p-about'') (Some [heading]) ''My Site'' =
     Loaded (Value [heading]) (Value \<lparr>ps_title = ''My Site'', ps_meta = []\<rparr>) \<and>
   loadPageContent_spec legacySite ''p-about'' = ([], \<lparr>ps_title = ''My Site'', ps_meta = []\<rparr>) \<and>
   loadPageContent (Some legacySite) (Some ''p-about'') (Some [heading]) ''My Site'' \<noteq>
     Loaded (Value (fst (loadPageContent_spec legacySite ''p-about'')))
       (Value (snd (loadPageContent_spec legacySite ''p-about'')))"
  by (simp add: loadPageContent_def loadPageContent_spec_def legacySite_def noSettings_def
      heading_def jsLookup_def not_prototype_keys)

text \<open>
  Claim C3, amended. For every document that has settings and every page id that is not
  empty and does not name a member of \<^verbatim>\<open>Object.prototype\<close>, the load returns
  \<open>pagesContent[pageId]\<close> when that entry is present and not empty, and otherwise the
  elements of the hook (the empty sequence when it has none); it returns
  \<open>pagesSettings[pageId]\<close> when that entry is present and otherwise the default
  settings whose title is the website's name.
\<close>

theorem loadPageContent_result:
  assumes "ws_settings website = Some settings" and "pageId \<noteq> []"
    and "pageId \<notin> set objectPrototypeKeys"
  shows "loadPageContent (Some website) (Some pageId) elems websiteName =
           Loaded
             (Value
               (case (case st_pagesContent settings of None \<Rightarrow> None | Some m \<Rightarrow> m pageId) of
                  Some (c # cs) \<Rightarrow> c # cs
                | _ \<Rightarrow> (case elems of Some es \<Rightarrow> es | None \<Rightarrow> [])))
             (Value
               (case (case st_pagesSettings settings of None \<Rightarrow> None | Some m \<Rightarrow> m pageId) of
                  Some ps \<Rightarrow> ps
                | None \<Rightarrow> \<lparr>ps_title = websiteName, ps_meta = []\<rparr>))"
  using assms
  by (simp add: loadPageContent_def jsLookup_def Let_def split: option.splits list.splits)

theorem loadPageContent_result_witness:
  "ws_settings pagedSite = Some pagedSettings \<and>
   st_pagesContent pagedSettings = Some [''p-about'' \<mapsto> [heading]] \<and>
   st_pagesSettings pagedSettings = Some [''p-about'' \<mapsto> aboutSettings] \<and>
   loadPageContent (Some pagedSite) (Some ''p-about'') (Some [welcomeText]) ''My Site'' =
     Loaded (Value [heading]) (Value aboutSettings) \<and>
   loadPageContent (Some pagedSite) (Some ''p-home'') (Some [welcomeText]) ''My Site'' =
     Loaded (Value [welcomeText]) (Value \<lparr>ps_title = ''My Site'', ps_meta = []\<rparr>)"
proof -
  have h1: "ws_settings pagedSite = Some pagedSettings" by (simp add: pagedSite_def)
  have h2: "''p-about'' \<noteq> []" "''p-home'' \<noteq> []" by simp_all
  have c: "st_pagesContent pagedSettings = Some [''p-about'' \<mapsto> [heading]]"
    and t: "st_pagesSettings pagedSettings = Some [''p-about'' \<mapsto> aboutSettings]"
    by (simp_all add: pagedSettings_def)
  show ?thesis
    using h1 c t
      loadPageContent_result [OF h1 h2(1) not_prototype_keys(1), of "Some [welcomeText]"
        "''My Site''"]
      loadPageContent_result [OF h1 h2(2) not_prototype_keys(2), of "Some [welcomeText]"
        "''My Site''"]
    by simp
qed

text \<open>
  Claim C4, as stated, fails: committing an empty element list to a page and loading the
  page again, while the hook supplies elements, returns the hook's elements. Here the
  hook supplies the website's top-level content, which is also the content that the commit
  of a page other than the home page hands to the save.
\<close>

theorem commitThenLoad_empty_counterexample:
  "ws_content twoPageSite = Some [heading] \<and>
   (case handleSaveComplete (Some twoPageSite) (Some ''p-about'') [] aboutSettings of
      CommitSaves call \<Rightarrow> sc_content call
    | _ \<Rightarrow> None) = Some [heading] \<and>
   commitThenLoad twoPageSite (Some ''p-about'') [] aboutSettings (Some [heading]) ''My Site'' =
     Loaded (Value [heading]) (Value aboutSettings) \<and>
   commitThenLoad twoPageSite (Some ''p-about'') [] aboutSettings (Some [heading]) ''My Site'' \<noteq>
     Loaded (Value []) (Value aboutSettings)"
  by (simp add: commitThenLoad_def handleSaveComplete_def saveWebsite_def patchSettings_def
      loadPageContent_def twoPageSite_def twoPages_def deepCopy_def jsAssign_def jsLookup_def)

text \<open>
  Claim C4, amended. For every document that has settings, every page id that is not empty
  and is not \<^verbatim>\<open>__proto__\<close>, every elements list and page settings, committing the page
  content and then loading it for the same page returns the committed settings, and the
  committed elements when the list is not empty; when it is empty the load returns the
  elements that the hook supplies (the empty sequence when it has none).
\<close>

theorem commitThenLoad_roundtrip:
  assumes "ws_settings website = Some settings" and "pageId \<noteq> []"
    and "pageId \<noteq> ''__proto__''"
  shows "commitThenLoad website (Some pageId) updatedElements updatedPageSettings elems
           websiteName =
           Loaded
             (Value
               (if updatedElements = [] then (case elems of Some es \<Rightarrow> es | None \<Rightarrow> [])
                else updatedElements))
             (Value updatedPageSettings)"
  using assms
  by (simp add: commitThenLoad_def handleSaveComplete_def saveWebsite_def patchSettings_def
      loadPageContent_def deepCopy_def jsAssign_def jsLookup_def Let_def)

theorem commitThenLoad_roundtrip_witness:
  "ws_settings pagedSite = Some pagedSettings \<and> ''p-about'' \<noteq> [] \<and>
   ''p-about'' \<noteq> ''__proto__'' \<and>
   commitThenLoad pagedSite (Some ''p-about'') [welcomeText, heading] aboutSettings
     (Some [heading]) ''My Site'' =
     Loaded (Value [welcomeText, heading]) (Value aboutSettings) \<and>
   commitThenLoad pagedSite (Some ''p-home'') [] aboutSettings None ''My Site'' =
     Loaded (Value []) (Value aboutSettings)"
proof -
  have h1: "ws_settings pagedSite = Some pagedSettings" by (simp add: pagedSite_def)
  have h2: "''p-about'' \<noteq> []" "''p-home'' \<noteq> []" by simp_all
  have h3: "''p-about'' \<noteq> ''__proto__''" "''p-home'' \<noteq> ''__proto__''" by simp_all
  show ?thesis
    using h1
      commitThenLoad_roundtrip [OF h1 h2(1) h3(1), of "[welcomeText, heading]" aboutSettings
        "Some [heading]" "''My Site''"]
      commitThenLoad_roundtrip [OF h1 h2(2) h3(2), of "[]" aboutSettings None "''My Site''"]
    by simp
qed

subsection \<open>The drop handler: payloads that are missing or do not parse\<close>

text \<open>
  Claim C7, as stated, fails: a drop without data surfaces no user notification; the
  handler only writes to the console.
\<close>

theorem handleDrop_missing_counterexample:
  "handleDrop canvasB NoData = Inr [ConsoleLog ''No data in drop event''] \<and>
   toasts (handleDrop canvasB NoData) = []"
  by (simp add: handleDrop_def handleDrop_try_def canvasB_def toasts_def)

text \<open>
  Claim C7, amended. No drop makes the handler propagate an exception. For a payload that
  is missing or fails to parse the handler makes no call to the element store and the tree
  is unchanged, when it returns and after its timers. Outside preview mode a payload that
  fails to parse surfaces one notification, the error toast, and a missing payload surfaces
  none: it is only logged to the console. In preview mode the handler does nothing.
\<close>

theorem handleDrop_bad_payload:
  "(\<exists>cmds. handleDrop ctx data = Inr cmds) \<and>
   (data = NoData \<or> data = Unparseable \<longrightarrow>
      storeCommands (handleDrop ctx data) = [] \<and>
      treeAfterDrop ctx data = elements ctx \<and> treeAfterTimers ctx data = elements ctx) \<and>
   (\<not> isPreviewMode ctx \<longrightarrow>
      handleDrop ctx NoData = Inr [ConsoleLog ''No data in drop event''] \<and>
      toasts (handleDrop ctx NoData) = [] \<and>
      toasts (handleDrop ctx Unparseable) =
        [Toast ''Error'' ''Error adding element. Please try again.'']) \<and>
   (isPreviewMode ctx \<longrightarrow> handleDrop ctx data = Inr [])"
  by (auto simp: handleDrop_def handleDrop_try_def storeCommands_def toasts_def
      treeAfterDrop_def treeAfterTimers_def split: prod.splits option.splits)

theorem handleDrop_bad_payload_witness:
  "(\<exists>cmds. handleDrop canvasB Unparseable = Inr cmds) \<and>
   storeCommands (handleDrop canvasB Unparseable) = [] \<and>
   treeAfterDrop canvasB Unparseable = elements canvasB \<and>
   treeAfterTimers canvasB Unparseable = elements canvasB \<and>
   \<not> isPreviewMode canvasB \<and>
   toasts (handleDrop canvasB NoData) = [] \<and>
   toasts (handleDrop canvasB Unparseable) =
     [Toast ''Error'' ''Error adding element. Please try again.''] \<and>
   isPreviewMode (canvasB\<lparr>isPreviewMode := True\<rparr>) \<and>
   handleDrop (canvasB\<lparr>isPreviewMode := True\<rparr>) Unparseable = Inr []"
proof -
  have a: "\<not> isPreviewMode canvasB" by (simp add: canvasB_def)
  have b: "isPreviewMode (canvasB\<lparr>isPreviewMode := True\<rparr>)" by simp
  show ?thesis
    using a b handleDrop_bad_payload [of canvasB Unparseable]
      handleDrop_bad_payload [of "canvasB\<lparr>isPreviewMode := True\<rparr>" Unparseable]
    by (simp add: toasts_def)
qed

subsection \<open>The drop handler: reordering within a container\<close>




text \<open>
  Claim C2. A drop whose target is the dragged element itself does not leave the tree
  unchanged. On the root canvas the handler moves the element to the end of the root
  sequence; in a container it inserts a copy next to the element and sets the timer that
  removes every node with the id.
\<close>

theorem handleDrop_self_drop_changes_tree:
  "dropTarget_element (rootCanvas ''b'' True) = pl_id (dragged ''b'' None 1) \<and>
   elements (rootCanvas ''b'' True) = [leaf ''a'', leaf ''b'', leaf ''c''] \<and>
   storeCommands (handleDrop (rootCanvas ''b'' True) (Parsed (dragged ''b'' None 1))) =
     [MoveElement 1 2 None] \<and>
   treeAfterDrop (rootCanvas ''b'' True) (Parsed (dragged ''b'' None 1)) =
     [leaf ''a'', leaf ''c'', leaf ''b''] \<and>
   dropTarget_element canvasA = pl_id (dragged ''e'' (Some ''A'') 0) \<and>
   elements canvasA = [box ''A'' [leaf ''e'', leaf ''g''], box ''B'' [leaf ''f'']] \<and>
   storeCommands (handleDrop canvasA (Parsed (dragged ''e'' (Some ''A'') 0))) =
     [AddElement (leaf ''e'') (ArgIndex 0) (Some ''A''), SetTimeoutRemove ''e'' 50] \<and>
   treeAfterDrop canvasA (Parsed (dragged ''e'' (Some ''A'') 0)) =
     [box ''A'' [leaf ''e'', leaf ''e'', leaf ''g''], box ''B'' [leaf ''f'']] \<and>
   treeAfterTimers canvasA (Parsed (dragged ''e'' (Some ''A'') 0)) =
     [box ''A'' [leaf ''g''], box ''B'' [leaf ''f'']]"
  by (simp add: handleDrop_def handleDrop_try_def dropExistingElement_def storeCommands_def
      treeAfterDrop_def treeAfterTimers_def storeMove_def moveSeq_def storeInsert_def
      insertSeq_def insertAt_def truthy_def findElementIndex_def rootCanvas_def canvasA_def
      dragged_def leaf_def box_def Let_def)

subsection \<open>The drop handler: moving to another container\<close>

lemma storeRemove_no_id: "i \<notin> el_id ` set (preorder (storeRemove i es))"
  by (induction i es rule: storeRemove.induct) (auto split: option.splits)

lemma countId_storeRemove: "countId i (storeRemove i es) = 0"
  using storeRemove_no_id [of i es] by (auto simp: countId_def filter_empty_conv)

text \<open>
  For every drop of an existing element onto the canvas of a container other than its
  own, with a source index in the payload, the timer that the handler sets removes every
  node that carries the element's id: after it has fired, the id is nowhere in the tree.
\<close>

lemma handleDrop_cross_container_removes_all:
  assumes "\<not> isPreviewMode ctx"
    and "pl_id p = Some eid" and "eid \<noteq> []"
    and "findElementById (elements ctx) eid = Some E"
    and "containerId ctx = Some b" and "b \<noteq> []"
    and "pl_parentId p \<noteq> Some b"
    and "pl_sourceIndex p = Some s" and "0 \<le> s"
  shows "countId eid (treeAfterTimers ctx (Parsed p)) = 0"
proof -
  have "\<exists>T. treeAfterTimers ctx (Parsed p) = storeRemove eid T"
    using assms
    by (auto simp: handleDrop_def handleDrop_try_def dropExistingElement_def
        treeAfterTimers_def truthy_def Let_def)
  then show ?thesis by (auto simp: countId_storeRemove)
qed

text \<open>
  Claim C1. After the drop of an existing element onto a different container the id of
  the element is to occur exactly once in the tree, in the destination, and in exactly one
  place at every boundary. The handler does not achieve this. For the leaf \<^verbatim>\<open>e\<close> of
  container \<^verbatim>\<open>A\<close> dropped on the top half of \<^verbatim>\<open>f\<close> in container \<^verbatim>\<open>B\<close>, it inserts a
  copy with the same id at index 0 of \<^verbatim>\<open>B\<close> and sets the timer for the removal by id:
  when the handler returns the id is in the tree twice, and when the timer has fired it is
  in the tree no more.
\<close>

theorem handleDrop_cross_container_loses_element:
  "elements canvasBOverF = [box ''A'' [leaf ''e''], box ''B'' [leaf ''f'']] \<and>
   containerId canvasBOverF = Some ''B'' \<and>
   pl_parentId (dragged ''e'' (Some ''A'') 0) = Some ''A'' \<and>
   countId ''e'' (elements canvasBOverF) = 1 \<and>
   storeCommands (handleDrop canvasBOverF (Parsed (dragged ''e'' (Some ''A'') 0))) =
     [AddElement (leaf ''e'') (ArgIndex 0) (Some ''B''), SetTimeoutRemove ''e'' 50] \<and>
   treeAfterDrop canvasBOverF (Parsed (dragged ''e'' (Some ''A'') 0)) =
     [box ''A'' [leaf ''e''], box ''B'' [leaf ''e'', leaf ''f'']] \<and>
   countId ''e'' (treeAfterDrop canvasBOverF (Parsed (dragged ''e'' (Some ''A'') 0))) = 2 \<and>
   treeAfterTimers canvasBOverF (Parsed (dragged ''e'' (Some ''A'') 0)) =
     [box ''A'' [], box ''B'' [leaf ''f'']] \<and>
   countId ''e'' (treeAfterTimers canvasBOverF (Parsed (dragged ''e'' (Some ''A'') 0))) = 0"
  by (simp add: countId_def treeAfterDrop_def treeAfterTimers_def handleDrop_def
      handleDrop_try_def dropExistingElement_def storeCommands_def truthy_def
      findElementIndex_def storeInsert_def insertSeq_def insertAt_def canvasBOverF_def
      canvasB_def dragged_def leaf_def box_def Let_def)

end
